theory Spec2Isabelle
  imports Complex_Main "HOL-Library.AList"
begin

section \<open>Python values and exceptions\<close>

text \<open>
  The values a handler of \<^verbatim>\<open>automation_functions.py\<close> can return or receive.
  \<open>truthy\<close> is Python's truth test, as used by \<^verbatim>\<open>result if result else ...\<close>.
\<close>

datatype pyval = PNone | PBool bool | PInt int | PStr string | PList "pyval list"

fun truthy :: "pyval \<Rightarrow> bool" where
  "truthy PNone = False"
| "truthy (PBool b) = b"
| "truthy (PInt i) = (i \<noteq> 0)"
| "truthy (PStr s) = (s \<noteq> [])"
| "truthy (PList xs) = (xs \<noteq> [])"

text \<open>
  An exception is its class and the text \<^verbatim>\<open>str(e)\<close>. Only the classes the code
  tells apart are kept: \<^verbatim>\<open>except TypeError\<close> comes first, \<^verbatim>\<open>except Exception\<close>
  catches every other class of the \<^verbatim>\<open>Exception\<close> hierarchy. Handlers that leave
  that hierarchy (\<^verbatim>\<open>SystemExit\<close>, \<^verbatim>\<open>KeyboardInterrupt\<close>) are outside the model.
\<close>

datatype exc_class = TypeError | ValueError | IndexError | OtherException

datatype py_exception = Exc exc_class string

type_synonym 'a raises = "py_exception + 'a"

section \<open>Handlers and keyword binding\<close>

text \<open>
  A handler is a Python function: a signature, a docstring (\<^verbatim>\<open>__doc__\<close>, possibly
  \<^verbatim>\<open>None\<close>) and a body. The body acts on a world \<open>'w\<close> (the browser it opens, the
  files it lists) and returns a value or raises. The dispatcher calls a handler either
  with keyword arguments only (\<^verbatim>\<open>f(**params)\<close>) or with no argument at all, so
  binding is the binding of keywords: a keyword must name a parameter that can be
  passed by keyword (or be absorbed by \<^verbatim>\<open>**kwargs\<close>), and every parameter
  without a default must receive a value. Both failures raise \<^verbatim>\<open>TypeError\<close> before
  the body runs; the text of that exception is only logged by the caller, so the
  model fixes one text for each.
\<close>

datatype param_kind =
  PositionalOnly | PositionalOrKeyword | VarPositional | KeywordOnly | VarKeyword

record param =
  p_name :: string
  p_kind :: param_kind
  p_has_default :: bool

type_synonym kwargs = "(string \<times> pyval) list"

record 'w handler =
  h_signature :: "param list"
  h_doc :: "string option"
  h_body :: "kwargs \<Rightarrow> 'w \<Rightarrow> pyval raises \<times> 'w"

definition accepts_keyword :: "param list \<Rightarrow> string \<Rightarrow> bool" where
  "accepts_keyword ps k =
     (list_ex (\<lambda>p. p_name p = k \<and> (p_kind p = PositionalOrKeyword \<or> p_kind p = KeywordOnly)) ps
      \<or> list_ex (\<lambda>p. p_kind p = VarKeyword) ps)"

definition is_required :: "param \<Rightarrow> bool" where
  "is_required p =
     (\<not> p_has_default p \<and>
      (p_kind p = PositionalOnly \<or> p_kind p = PositionalOrKeyword \<or> p_kind p = KeywordOnly))"

definition is_bound :: "kwargs \<Rightarrow> param \<Rightarrow> bool" where
  "is_bound kw p = (p_kind p \<noteq> PositionalOnly \<and> p_name p \<in> set (map fst kw))"

definition bind_keywords :: "param list \<Rightarrow> kwargs \<Rightarrow> py_exception option" where
  "bind_keywords ps kw =
     (if \<not> list_all (accepts_keyword ps) (map fst kw)
      then Some (Exc TypeError ''got an unexpected keyword argument'')
      else if list_ex (\<lambda>p. is_required p \<and> \<not> is_bound kw p) ps
      then Some (Exc TypeError ''missing a required argument'')
      else None)"

definition call_handler :: "'w handler \<Rightarrow> kwargs \<Rightarrow> 'w \<Rightarrow> pyval raises \<times> 'w" where
  "call_handler f kw w =
     (case bind_keywords (h_signature f) kw of
        Some e \<Rightarrow> (Inl e, w)
      | None \<Rightarrow> h_body f kw w)"

text \<open>A handler requires a parameter when its signature has one without a default.\<close>

definition requires_parameter :: "'w handler \<Rightarrow> bool" where
  "requires_parameter f = list_ex is_required (h_signature f)"

section \<open>The Action Registry: \<^verbatim>\<open>get_available_functions\<close>\<close>

text \<open>
  \<^verbatim>\<open>inspect.getmembers(automation_functions, inspect.isfunction)\<close> lists the members of
  the module that are functions (\<open>the_function\<close> is the test \<^verbatim>\<open>inspect.isfunction\<close>,
  giving the function when the member is one; an imported module such as \<^verbatim>\<open>os\<close> is
  not); the dict comprehension turns the list into a dict.
  A Python dict is an association list with distinct keys in insertion order, and
  \<open>AList.update\<close> is its item assignment: a new key goes to the end, a known key
  keeps its place and takes the new value.
\<close>

datatype 'w member = Function "'w handler" | NotFunction

type_synonym 'w registry = "(string \<times> 'w handler) list"

fun the_function :: "'w member \<Rightarrow> 'w handler option" where
  "the_function (Function f) = Some f"
| "the_function NotFunction = None"

definition getmembers_isfunction :: "(string \<times> 'w member) list \<Rightarrow> (string \<times> 'w handler) list" where
  "getmembers_isfunction members =
     List.map_filter (\<lambda>(name, m). map_option (\<lambda>f. (name, f)) (the_function m)) members"

definition dict_of :: "('k \<times> 'v) list \<Rightarrow> ('k \<times> 'v) list" where
  "dict_of items = foldl (\<lambda>d (k, v). AList.update k v d) [] items"

definition get_available_functions :: "(string \<times> 'w member) list \<Rightarrow> 'w registry" where
  "get_available_functions members =
     dict_of (map (\<lambda>(name, func). (name, func)) (getmembers_isfunction members))"

section \<open>The Dispatcher: \<^verbatim>\<open>execute_function\<close>\<close>

text \<open>
  \<^verbatim>\<open>if params:\<close> is the truth test of \<^verbatim>\<open>None\<close> or a dict: an absent and an
  empty mapping both take the branch that calls the handler with no argument.
\<close>

fun truthy_params :: "kwargs option \<Rightarrow> bool" where
  "truthy_params None = False"
| "truthy_params (Some kw) = (kw \<noteq> [])"

text \<open>
  Lines 111 to 114: the call with the parameters bound as keywords, or with no argument.
\<close>

definition call_with_params :: "'w handler \<Rightarrow> kwargs option \<Rightarrow> 'w \<Rightarrow> pyval raises \<times> 'w" where
  "call_with_params f params w =
     (if truthy_params params then call_handler f (the params) w else call_handler f [] w)"

text \<open>The body of the \<^verbatim>\<open>try\<close> block: the allow-list guard, the call, the normalisation.\<close>

definition execute_function_try ::
  "'w registry \<Rightarrow> string \<Rightarrow> kwargs option \<Rightarrow> 'w \<Rightarrow> pyval raises \<times> 'w" where
  "execute_function_try ALLOWED_FUNCTIONS function_name params w =
     (case map_of ALLOWED_FUNCTIONS function_name of
        None \<Rightarrow> (Inl (Exc ValueError ''Unauthorized function access''), w)
      | Some f \<Rightarrow>
          (case call_with_params f params w of
             (Inl e, w') \<Rightarrow> (Inl e, w')
           | (Inr result, w') \<Rightarrow>
               (Inr (if truthy result then result else PStr ''Executed Successfully''), w')))"

text \<open>
  The two \<^verbatim>\<open>except\<close> clauses, in the source's order. The result is what the Python
  function hands to its caller: \<open>Inr v\<close> when it returns \<open>v\<close>, \<open>Inl e\<close> when it lets
  the exception \<open>e\<close> escape.
\<close>

definition execute_function ::
  "'w registry \<Rightarrow> string \<Rightarrow> kwargs option \<Rightarrow> 'w \<Rightarrow> pyval raises \<times> 'w" where
  "execute_function ALLOWED_FUNCTIONS function_name params w =
     (case execute_function_try ALLOWED_FUNCTIONS function_name params w of
        (Inr v, w') \<Rightarrow> (Inr v, w')
      | (Inl (Exc TypeError msg), w') \<Rightarrow>
          (Inr (PStr (''Error: Function '' @ function_name @ '' requires parameters.'')), w')
      | (Inl (Exc _ msg), w') \<Rightarrow> (Inr (PStr msg), w'))"

section \<open>The Session Store\<close>

text \<open>
  \<^verbatim>\<open>session_memory\<close> is a dict from session ids to lists of prompts. \<open>record_prompt\<close>
  is lines 77 to 79 of \<^verbatim>\<open>retrieve_best_function\<close>: \<^verbatim>\<open>setdefault\<close>, the membership test,
  the append. \<open>session_memory_get\<close> is \<^verbatim>\<open>session_memory.get(session_id, [])\<close>.
\<close>

type_synonym session_memory = "string \<rightharpoonup> string list"

definition setdefault :: "session_memory \<Rightarrow> string \<Rightarrow> string list \<Rightarrow> session_memory" where
  "setdefault mem k d = (case mem k of None \<Rightarrow> mem(k \<mapsto> d) | Some h \<Rightarrow> mem)"

definition record_prompt :: "string \<Rightarrow> string \<Rightarrow> session_memory \<Rightarrow> session_memory" where
  "record_prompt session_id prompt mem =
     (let mem1 = setdefault mem session_id []
      in case mem1 session_id of
           None \<Rightarrow> mem1
         | Some history \<Rightarrow>
             if prompt \<in> set history then mem1
             else mem1(session_id \<mapsto> history @ [prompt]))"

definition session_memory_get :: "session_memory \<Rightarrow> string \<Rightarrow> string list" where
  "session_memory_get mem session_id = (case mem session_id of None \<Rightarrow> [] | Some h \<Rightarrow> h)"

section \<open>The Similarity Index\<close>

text \<open>
  Modelled from the spec: the store behind \<^verbatim>\<open>collection\<close> and the embedding model are
  libraries outside the repository. The store is the spec's Similarity Index, a table
  of entries (action name, vector, optional metadata) with unique names: \<open>get\<close> lists
  the names, \<open>delete\<close> removes the entries of the given names, \<open>add\<close> inserts the entries
  whose name is not yet present, and \<open>query\<close> returns, for each query vector, the
  \<open>n_results\<close> closest entries by a distance where lower is more similar (no entry when
  the table is empty). The embedding model \<open>encode\<close> and the distance \<open>metric\<close> are
  parameters; a distance is a real number, the value of the float the library returns.
\<close>

record 'v entry =
  e_id :: string
  e_embedding :: 'v
  e_metadata :: "(string \<times> string) list option"

type_synonym 'v collection = "'v entry list"

definition collection_get :: "'v collection \<Rightarrow> string list raises" where
  "collection_get c = Inr (map e_id c)"

definition collection_delete :: "string list \<Rightarrow> 'v collection \<Rightarrow> 'v collection" where
  "collection_delete del_ids c = filter (\<lambda>e. e_id e \<notin> set del_ids) c"

definition new_entries ::
  "string list \<Rightarrow> 'v list \<Rightarrow> (string \<times> string) list list option \<Rightarrow> 'v entry list" where
  "new_entries new_ids embeddings metadatas =
     (case metadatas of
        None \<Rightarrow>
          map (\<lambda>(i, v). \<lparr>e_id = i, e_embedding = v, e_metadata = None\<rparr>) (zip new_ids embeddings)
      | Some ms \<Rightarrow>
          map (\<lambda>(i, v, m). \<lparr>e_id = i, e_embedding = v, e_metadata = Some m\<rparr>)
            (zip new_ids (zip embeddings ms)))"

definition add_entry :: "'v collection \<Rightarrow> 'v entry \<Rightarrow> 'v collection" where
  "add_entry c e = (if e_id e \<in> set (map e_id c) then c else c @ [e])"

definition collection_add ::
  "string list \<Rightarrow> 'v list \<Rightarrow> (string \<times> string) list list option \<Rightarrow> 'v collection \<Rightarrow> 'v collection" where
  "collection_add new_ids embeddings metadatas c =
     foldl add_entry c (new_entries new_ids embeddings metadatas)"

record query_result =
  ids :: "string list list"
  distances :: "real list list"

definition nearest :: "('v \<Rightarrow> 'v \<Rightarrow> real) \<Rightarrow> 'v collection \<Rightarrow> 'v \<Rightarrow> nat \<Rightarrow> 'v entry list" where
  "nearest metric c q n_results = take n_results (sort_key (\<lambda>e. metric q (e_embedding e)) c)"

definition collection_query ::
  "('v \<Rightarrow> 'v \<Rightarrow> real) \<Rightarrow> 'v collection \<Rightarrow> 'v list \<Rightarrow> nat \<Rightarrow> query_result" where
  "collection_query metric c query_embeddings n_results =
     \<lparr>ids = map (\<lambda>q. map e_id (nearest metric c q n_results)) query_embeddings,
      distances =
        map (\<lambda>q. map (\<lambda>e. metric q (e_embedding e)) (nearest metric c q n_results)) query_embeddings\<rparr>"

subsection \<open>The startup rebuild: \<^verbatim>\<open>clear_and_store_functions\<close>\<close>

definition clear_and_store_functions ::
  "(string \<Rightarrow> 'v) \<Rightarrow> 'w registry \<Rightarrow> 'v collection \<Rightarrow> 'v collection" where
  "clear_and_store_functions encode ALLOWED_FUNCTIONS collection =
     (let function_names = map fst ALLOWED_FUNCTIONS;
          collection1 =
            (case collection_get collection of
               Inr existing_records \<Rightarrow>
                 if existing_records \<noteq> [] then collection_delete existing_records collection
                 else collection
             | Inl e \<Rightarrow> collection);
          function_embeddings = map encode function_names
      in collection_add function_names function_embeddings None collection1)"

section \<open>The Intent Resolver: \<^verbatim>\<open>retrieve_best_function\<close>\<close>

definition SIMILARITY_THRESHOLD :: real where
  "SIMILARITY_THRESHOLD = 0.45"

text \<open>
  The three tests of line 87 are the truth tests of the result dict (never empty), of
  \<^verbatim>\<open>results["ids"]\<close> and of \<^verbatim>\<open>results["ids"][0]\<close>. Reading
  \<^verbatim>\<open>results["distances"][0][0]\<close> raises \<^verbatim>\<open>IndexError\<close> when there is no such element.
\<close>

definition retrieve_best_function ::
  "(string \<Rightarrow> 'v) \<Rightarrow> ('v \<Rightarrow> 'v \<Rightarrow> real) \<Rightarrow> 'v collection \<Rightarrow> string \<Rightarrow> string \<Rightarrow>
     session_memory \<Rightarrow> string option raises \<times> session_memory" where
  "retrieve_best_function encode metric collection prompt session_id mem =
     (let embedding = encode prompt;
          mem' = record_prompt session_id prompt mem;
          results = collection_query metric collection [embedding] 1
      in (case ids results of
            [] \<Rightarrow> Inr None
          | [] # _ \<Rightarrow> Inr None
          | (best_match_id # _) # _ \<Rightarrow>
              (case distances results of
                 (best_match_score # _) # _ \<Rightarrow>
                   if best_match_score > SIMILARITY_THRESHOLD then Inr None
                   else Inr (Some best_match_id)
               | _ \<Rightarrow> Inl (Exc IndexError ''list index out of range'')),
          mem'))"

section \<open>Code text: \<^verbatim>\<open>generate_code\<close>\<close>

text \<open>
  The f-string of \<^verbatim>\<open>code_generator.py\<close>, line by line; \<open>dq\<close> is the double quote and
  \<open>nl\<close> the line feed. The text starts with the line feed after the opening quotes and
  ends with the four blanks before the closing ones.
\<close>

definition nl :: string where
  "nl = [CHR 0x0A]"

definition dq :: string where
  "dq = [CHR 0x22]"

definition generate_code :: "string \<Rightarrow> string" where
  "generate_code function_name =
     nl @
     ''from automation import '' @ function_name @ nl @
     nl @
     ''def main():'' @ nl @
     ''    try:'' @ nl @
     ''        result = '' @ function_name @ ''()'' @ nl @
     ''        if result:'' @ nl @
     ''            print(result)'' @ nl @
     ''        else:'' @ nl @
     ''            print('' @ dq @ function_name @ '' executed successfully.'' @ dq @ '')'' @ nl @
     ''    except Exception as e:'' @ nl @
     ''        print(f'' @ dq @ ''Error executing function: {e}'' @ dq @ '')'' @ nl @
     nl @
     ''if __name__ == '' @ dq @ ''__main__'' @ dq @ '':'' @ nl @
     ''    main()'' @ nl @
     ''    ''"

section \<open>Batch resolve-and-execute: \<^verbatim>\<open>execute_multiple\<close>\<close>

record result_entry =
  r_function :: "string option"
  r_output :: pyval
  r_code :: "string option"

record response =
  session_history :: "string list"
  results :: "result_entry list"

text \<open>\<^verbatim>\<open>if function_name:\<close> is the truth test of \<^verbatim>\<open>None\<close> or a string.\<close>

fun truthy_name :: "string option \<Rightarrow> bool" where
  "truthy_name None = False"
| "truthy_name (Some s) = (s \<noteq> [])"

text \<open>
  The \<^verbatim>\<open>for\<close> loop over \<^verbatim>\<open>request.prompts\<close>, with the list \<^verbatim>\<open>results\<close> as accumulator.
  The session memory and the world are threaded through the calls; an exception that
  escapes a call ends the loop.
\<close>

fun execute_multiple_loop ::
  "(string \<Rightarrow> 'v) \<Rightarrow> ('v \<Rightarrow> 'v \<Rightarrow> real) \<Rightarrow> 'v collection \<Rightarrow> 'w registry \<Rightarrow> string \<Rightarrow>
     string list \<Rightarrow> result_entry list \<Rightarrow> session_memory \<Rightarrow> 'w \<Rightarrow>
     result_entry list raises \<times> session_memory \<times> 'w" where
  "execute_multiple_loop encode metric collection ALLOWED_FUNCTIONS session_id [] res mem w =
     (Inr res, mem, w)"
| "execute_multiple_loop encode metric collection ALLOWED_FUNCTIONS session_id (prompt # prompts)
       res mem w =
     (case retrieve_best_function encode metric collection prompt session_id mem of
        (Inl e, mem') \<Rightarrow> (Inl e, mem', w)
      | (Inr function_name, mem') \<Rightarrow>
          if truthy_name function_name then
            (case execute_function ALLOWED_FUNCTIONS (the function_name) None w of
               (Inl e, w') \<Rightarrow> (Inl e, mem', w')
             | (Inr output, w') \<Rightarrow>
                 execute_multiple_loop encode metric collection ALLOWED_FUNCTIONS session_id prompts
                   (res @ [\<lparr>r_function = function_name, r_output = output,
                            r_code = Some (generate_code (the function_name))\<rparr>])
                   mem' w')
          else
            execute_multiple_loop encode metric collection ALLOWED_FUNCTIONS session_id prompts
              (res @ [\<lparr>r_function = None, r_output = PStr ''No matching function found'',
                       r_code = None\<rparr>])
              mem' w)"

definition execute_multiple ::
  "(string \<Rightarrow> 'v) \<Rightarrow> ('v \<Rightarrow> 'v \<Rightarrow> real) \<Rightarrow> 'v collection \<Rightarrow> 'w registry \<Rightarrow> string list \<Rightarrow>
     string \<Rightarrow> session_memory \<Rightarrow> 'w \<Rightarrow> response raises \<times> session_memory \<times> 'w" where
  "execute_multiple encode metric collection ALLOWED_FUNCTIONS prompts session_id mem w =
     (case execute_multiple_loop encode metric collection ALLOWED_FUNCTIONS session_id prompts
             [] mem w of
        (Inl e, mem', w') \<Rightarrow> (Inl e, mem', w')
      | (Inr res, mem', w') \<Rightarrow>
          (Inr \<lparr>session_history = session_memory_get mem' session_id, results = res\<rparr>, mem', w'))"

section \<open>The session memory of a run\<close>

text \<open>
  \<^verbatim>\<open>session_memory = {}\<close> at startup, and only \<^verbatim>\<open>retrieve_best_function\<close> writes to
  it: after any sequence of submissions (session id, prompt) the memory is
  \<open>session_memory_after\<close> of that sequence.
\<close>

definition session_memory_after :: "(string \<times> string) list \<Rightarrow> session_memory" where
  "session_memory_after submissions =
     foldl (\<lambda>mem (session_id, prompt). record_prompt session_id prompt mem) Map.empty submissions"

section \<open>A sample module\<close>

text \<open>
  A small module in the shape of \<^verbatim>\<open>automation_functions.py\<close>, for evaluating the
  definitions at concrete inputs. Its world is the list of what was launched. The
  bodies stand for the real ones: \<^verbatim>\<open>open_chrome\<close> returns nothing, \<^verbatim>\<open>get_cpu_usage\<close>
  returns a text, \<^verbatim>\<open>list_files\<close> has a docstring and a parameter with a default.
  \<open>sample_read_file\<close> requires its parameter, \<open>sample_count_files\<close> returns \<open>0\<close>,
  \<open>sample_motd\<close> returns a fixed text, \<open>sample_sync_files\<close> always fails, with an
  exception whose text is \<^verbatim>\<open>Executed Successfully\<close>.
\<close>

type_synonym world = "string list"

definition sample_open_chrome :: "world handler" where
  "sample_open_chrome =
     \<lparr>h_signature = [], h_doc = None,
      h_body = (\<lambda>kw w. (Inr PNone, w @ [''https://www.google.com'']))\<rparr>"

definition sample_get_cpu_usage :: "world handler" where
  "sample_get_cpu_usage =
     \<lparr>h_signature = [], h_doc = None,
      h_body = (\<lambda>kw w. (Inr (PStr ''CPU Usage: 12%''), w))\<rparr>"

definition sample_list_files :: "world handler" where
  "sample_list_files =
     \<lparr>h_signature = [\<lparr>p_name = ''directory'', p_kind = PositionalOrKeyword, p_has_default = True\<rparr>],
      h_doc = Some ''Lists files in the specified directory.'',
      h_body = (\<lambda>kw w. (Inr (PStr ''Files in .: api.py''), w))\<rparr>"

definition sample_read_file :: "world handler" where
  "sample_read_file =
     \<lparr>h_signature = [\<lparr>p_name = ''path'', p_kind = PositionalOrKeyword, p_has_default = False\<rparr>],
      h_doc = None,
      h_body = (\<lambda>kw w. (Inr (PStr ''contents''), w @ [''read'']))\<rparr>"

definition sample_count_files :: "world handler" where
  "sample_count_files =
     \<lparr>h_signature = [], h_doc = Some [],
      h_body = (\<lambda>kw w. (Inr (PInt 0), w))\<rparr>"

definition sample_motd :: "world handler" where
  "sample_motd =
     \<lparr>h_signature = [], h_doc = None,
      h_body = (\<lambda>kw w. (Inr (PStr ''Unauthorized function access''), w))\<rparr>"

definition sample_sync_files :: "world handler" where
  "sample_sync_files =
     \<lparr>h_signature = [], h_doc = None,
      h_body = (\<lambda>kw w. (Inl (Exc OtherException ''Executed Successfully''), w))\<rparr>"

definition sample_module :: "(string \<times> world member) list" where
  "sample_module =
     [(''get_cpu_usage'', Function sample_get_cpu_usage),
      (''list_files'', Function sample_list_files),
      (''open_chrome'', Function sample_open_chrome),
      (''os'', NotFunction)]"

definition sample_registry :: "world registry" where
  "sample_registry =
     [(''get_cpu_usage'', sample_get_cpu_usage),
      (''list_files'', sample_list_files),
      (''open_chrome'', sample_open_chrome),
      (''read_file'', sample_read_file),
      (''count_files'', sample_count_files),
      (''motd'', sample_motd),
      (''sync_files'', sample_sync_files)]"

text \<open>
  A one-dimensional embedding for the samples: a text is embedded as its length, and
  the distance of two vectors is a tenth of their difference.
\<close>

definition sample_encode :: "string \<Rightarrow> real" where
  "sample_encode s = real (length s)"

definition sample_metric :: "real \<Rightarrow> real \<Rightarrow> real" where
  "sample_metric a b = \<bar>a - b\<bar> / 10"

definition sample_collection :: "real collection" where
  "sample_collection =
     [\<lparr>e_id = ''get_cpu_usage'', e_embedding = 13, e_metadata = None\<rparr>,
      \<lparr>e_id = ''open_chrome'', e_embedding = 11, e_metadata = None\<rparr>]"

text \<open>
  A second embedding that keeps the text as it is, so that an entry shows the text it
  was made from.
\<close>

definition sample_text_encode :: "string \<Rightarrow> string" where
  "sample_text_encode s = s"

definition sample_stale_collection :: "string collection" where
  "sample_stale_collection =
     [\<lparr>e_id = ''open_paint'', e_embedding = ''open_paint'', e_metadata = None\<rparr>,
      \<lparr>e_id = ''open_chrome'', e_embedding = ''open_chrome'', e_metadata = None\<rparr>]"

section \<open>The Dispatcher's outcomes\<close>

lemma bind_keywords_empty:
  "bind_keywords ps [] =
     (if list_ex is_required ps then Some (Exc TypeError ''missing a required argument'')
      else None)"
  by (simp add: bind_keywords_def is_bound_def list_ex_iff)

lemma call_with_params_falsy:
  "\<not> truthy_params params \<Longrightarrow> call_with_params f params w = call_handler f [] w"
  by (simp add: call_with_params_def)

text \<open>
  Claim C1, as amended. For every action name that is not a key of the allow-list,
  whatever the parameters, \<open>execute_function\<close> calls no handler (the world is
  unchanged, no default action is substituted) and returns the fixed text
  \<^verbatim>\<open>Unauthorized function access\<close> as its ordinary return value: the \<^verbatim>\<open>ValueError\<close> of
  the guard is raised inside the \<^verbatim>\<open>try\<close> block and caught by the function's own
  \<^verbatim>\<open>except Exception\<close> clause, so it does not reach the caller as an error.
\<close>

theorem unauthorized_returns_message:
  assumes "function_name \<notin> set (map fst ALLOWED_FUNCTIONS)"
  shows "execute_function ALLOWED_FUNCTIONS function_name params w =
           (Inr (PStr ''Unauthorized function access''), w)"
proof -
  from assms have "map_of ALLOWED_FUNCTIONS function_name = None"
    by (simp add: map_of_eq_None_iff)
  then show ?thesis
    by (simp add: execute_function_def execute_function_try_def)
qed

theorem unauthorized_returns_message_witness:
  "''format_disk'' \<notin> set (map fst sample_registry) \<and>
   execute_function sample_registry ''format_disk'' (Some [(''drive'', PStr ''C'')]) [] =
     (Inr (PStr ''Unauthorized function access''), [])"
  using unauthorized_returns_message
    [of "''format_disk''" sample_registry "Some [(''drive'', PStr ''C'')]" "[]"]
  by (simp add: sample_registry_def)

text \<open>
  Claim C1, as stated, fails: dispatching the unregistered name \<^verbatim>\<open>format_disk\<close> does
  not end in the error, it returns a text; and the registered action \<^verbatim>\<open>motd\<close>, whose
  handler returns that same text, gives the very same outcome, so the caller cannot
  tell the rejection from an ordinary result.
\<close>

theorem unauthorized_counterexample:
  "execute_function sample_registry ''format_disk'' None [] \<noteq>
     (Inl (Exc ValueError ''Unauthorized function access''), [])
   \<and> execute_function sample_registry ''format_disk'' None [] =
     (Inr (PStr ''Unauthorized function access''), [])
   \<and> execute_function sample_registry ''motd'' None [] =
     (Inr (PStr ''Unauthorized function access''), [])"
  by (simp add: execute_function_def execute_function_try_def sample_registry_def
      call_with_params_def call_handler_def bind_keywords_def sample_motd_def)

text \<open>
  Claim C4. For every registered action whose handler requires a parameter,
  dispatching it without parameters (absent or empty) returns the descriptive text
  \<^verbatim>\<open>Error: Function <name> requires parameters.\<close> as the outcome; the \<^verbatim>\<open>TypeError\<close> of
  the call is caught, nothing escapes the dispatcher, and the handler's body has not
  run (the world is unchanged).
\<close>

theorem missing_parameter_error:
  assumes "map_of ALLOWED_FUNCTIONS function_name = Some f"
    and "requires_parameter f"
    and "\<not> truthy_params params"
  shows "execute_function ALLOWED_FUNCTIONS function_name params w =
           (Inr (PStr (''Error: Function '' @ function_name @ '' requires parameters.'')), w)"
  using assms
  by (simp add: execute_function_def execute_function_try_def call_with_params_falsy
      call_handler_def bind_keywords_empty requires_parameter_def)

theorem missing_parameter_error_witness:
  "map_of sample_registry ''read_file'' = Some sample_read_file \<and>
   requires_parameter sample_read_file \<and> \<not> truthy_params None \<and>
   execute_function sample_registry ''read_file'' None [] =
     (Inr (PStr ''Error: Function read_file requires parameters.''), [])"
  using missing_parameter_error [of sample_registry "''read_file''" sample_read_file None "[]"]
  by (simp add: sample_registry_def requires_parameter_def sample_read_file_def is_required_def)

text \<open>
  Claim C5, as amended. For every registered zero-argument action whose handler, called
  by the dispatcher, returns no value (\<^verbatim>\<open>None\<close>), the outcome is the fixed text
  \<^verbatim>\<open>Executed Successfully\<close>, which is not an empty or falsy value. The text does not
  tell "ran, no output" from "failed": when the handler raises an exception of a class
  other than \<^verbatim>\<open>TypeError\<close>, the outcome is the text of that exception, returned in the
  same way, and that text can be the same one.
\<close>

theorem no_value_normalized:
  assumes "map_of ALLOWED_FUNCTIONS function_name = Some f"
    and "h_signature f = []"
  shows "(call_with_params f params w = (Inr PNone, w') \<longrightarrow>
            execute_function ALLOWED_FUNCTIONS function_name params w =
              (Inr (PStr ''Executed Successfully''), w')
            \<and> truthy (PStr ''Executed Successfully''))
       \<and> (call_with_params f params w = (Inl (Exc c msg), w') \<and> c \<noteq> TypeError \<longrightarrow>
            execute_function ALLOWED_FUNCTIONS function_name params w = (Inr (PStr msg), w'))"
proof (intro conjI impI)
  assume "call_with_params f params w = (Inr PNone, w')"
  with assms(1) show "execute_function ALLOWED_FUNCTIONS function_name params w =
      (Inr (PStr ''Executed Successfully''), w')"
    by (simp add: execute_function_def execute_function_try_def)
next
  show "truthy (PStr ''Executed Successfully'')" by simp
next
  assume "call_with_params f params w = (Inl (Exc c msg), w') \<and> c \<noteq> TypeError"
  with assms(1) show "execute_function ALLOWED_FUNCTIONS function_name params w =
      (Inr (PStr msg), w')"
    by (cases c) (simp_all add: execute_function_def execute_function_try_def)
qed

theorem no_value_normalized_witness:
  "map_of sample_registry ''open_chrome'' = Some sample_open_chrome
   \<and> h_signature sample_open_chrome = []
   \<and> call_with_params sample_open_chrome None [] = (Inr PNone, [''https://www.google.com''])
   \<and> execute_function sample_registry ''open_chrome'' None [] =
       (Inr (PStr ''Executed Successfully''), [''https://www.google.com''])
   \<and> map_of sample_registry ''sync_files'' = Some sample_sync_files
   \<and> h_signature sample_sync_files = []
   \<and> call_with_params sample_sync_files None [] =
       (Inl (Exc OtherException ''Executed Successfully''), [])
   \<and> OtherException \<noteq> TypeError
   \<and> execute_function sample_registry ''sync_files'' None [] =
       (Inr (PStr ''Executed Successfully''), [])"
proof -
  have r1: "map_of sample_registry ''open_chrome'' = Some sample_open_chrome"
    and r2: "map_of sample_registry ''sync_files'' = Some sample_sync_files"
    by (simp_all add: sample_registry_def)
  have s1: "h_signature sample_open_chrome = []"
    and s2: "h_signature sample_sync_files = []"
    by (simp_all add: sample_open_chrome_def sample_sync_files_def)
  have c1: "call_with_params sample_open_chrome None [] =
              (Inr PNone, [''https://www.google.com''])"
    by (simp add: sample_open_chrome_def call_with_params_def call_handler_def
        bind_keywords_def)
  have c2: "call_with_params sample_sync_files None [] =
              (Inl (Exc OtherException ''Executed Successfully''), [])"
    by (simp add: sample_sync_files_def call_with_params_def call_handler_def
        bind_keywords_def)
  have ne: "OtherException \<noteq> TypeError" by simp
  from no_value_normalized
    [OF r1 s1, where params = None and w = "[]" and w' = "[''https://www.google.com'']"] c1
  have e1: "execute_function sample_registry ''open_chrome'' None [] =
              (Inr (PStr ''Executed Successfully''), [''https://www.google.com''])"
    by blast
  from no_value_normalized
    [OF r2 s2, where params = None and w = "[]" and w' = "[]" and c = OtherException
       and msg = "''Executed Successfully''"] c2 ne
  have e2: "execute_function sample_registry ''sync_files'' None [] =
              (Inr (PStr ''Executed Successfully''), [])"
    by blast
  from r1 s1 c1 e1 r2 s2 c2 ne e2 show ?thesis by (intro conjI)
qed

text \<open>
  Claim C5, as stated, fails in its last part. \<^verbatim>\<open>open_chrome\<close> runs and returns
  nothing; \<^verbatim>\<open>sync_files\<close> fails. The two dispatches give the same outcome, so the
  caller cannot tell which of them failed.
\<close>

theorem no_value_counterexample:
  "call_with_params sample_open_chrome None [] = (Inr PNone, [''https://www.google.com''])
   \<and> call_with_params sample_sync_files None [] =
       (Inl (Exc OtherException ''Executed Successfully''), [])
   \<and> fst (execute_function sample_registry ''open_chrome'' None []) =
       Inr (PStr ''Executed Successfully'')
   \<and> fst (execute_function sample_registry ''sync_files'' None []) =
       Inr (PStr ''Executed Successfully'')"
  by (simp add: execute_function_def execute_function_try_def sample_registry_def
      call_with_params_def call_handler_def bind_keywords_def sample_open_chrome_def
      sample_sync_files_def)

text \<open>
  Claim C10. For every registered action whose handler returns any falsy value (an
  empty string, \<open>0\<close>, \<open>False\<close>, an empty list, as well as \<^verbatim>\<open>None\<close>), the outcome is
  the fixed text \<^verbatim>\<open>Executed Successfully\<close>: the value itself is lost, and the outcome
  is the one of a handler that returned nothing.
\<close>

theorem falsy_result_replaced:
  assumes "map_of ALLOWED_FUNCTIONS function_name = Some f"
    and "call_with_params f params w = (Inr v, w')"
    and "\<not> truthy v"
  shows "execute_function ALLOWED_FUNCTIONS function_name params w =
           (Inr (PStr ''Executed Successfully''), w')"
  using assms
  by (simp add: execute_function_def execute_function_try_def)

theorem falsy_result_replaced_witness:
  "map_of sample_registry ''count_files'' = Some sample_count_files \<and>
   call_with_params sample_count_files None [] = (Inr (PInt 0), []) \<and>
   \<not> truthy (PInt 0) \<and>
   execute_function sample_registry ''count_files'' None [] =
     (Inr (PStr ''Executed Successfully''), [])"
  using falsy_result_replaced [of sample_registry "''count_files''" sample_count_files None "[]"
      "PInt 0" "[]"]
  by (simp add: sample_registry_def sample_count_files_def call_with_params_def
      call_handler_def bind_keywords_def)

section \<open>The Session Store's histories\<close>

lemma history_record:
  "session_memory_get (record_prompt sid p mem) sid =
     (if p \<in> set (session_memory_get mem sid) then session_memory_get mem sid
      else session_memory_get mem sid @ [p])"
  by (auto simp add: record_prompt_def setdefault_def session_memory_get_def Let_def
      split: option.splits)

lemma history_record_other:
  "sid' \<noteq> sid \<Longrightarrow>
   session_memory_get (record_prompt sid p mem) sid' = session_memory_get mem sid'"
  by (simp add: record_prompt_def setdefault_def session_memory_get_def Let_def
      split: option.splits)

lemma history_empty: "session_memory_get Map.empty sid = []"
  by (simp add: session_memory_get_def)

text \<open>No history of a run holds a prompt twice.\<close>

lemma history_distinct: "distinct (session_memory_get (session_memory_after subs) sid)"
proof (induction subs rule: rev_induct)
  case Nil
  show ?case by (simp add: session_memory_after_def session_memory_get_def)
next
  case (snoc x subs)
  obtain s p where x: "x = (s, p)" by (cases x)
  have step: "session_memory_after (subs @ [x]) = record_prompt s p (session_memory_after subs)"
    by (simp add: session_memory_after_def x)
  show ?case
  proof (cases "s = sid")
    case True
    with snoc step show ?thesis by (simp add: history_record)
  next
    case False
    with snoc step show ?thesis by (simp add: history_record_other)
  qed
qed

lemma count_list_distinct_mem:
  "distinct xs \<Longrightarrow> x \<in> set xs \<Longrightarrow> count_list xs x = 1"
  by (induction xs) auto

text \<open>
  Claim C3. In the session memory \<open>mem\<close> of any run, and for every session id:
  recording the same prompt \<open>p\<close> twice gives the history of recording it once, with
  exactly one occurrence of \<open>p\<close>; recording two distinct prompts \<open>p\<close> then \<open>q\<close> leaves
  each exactly once in the history, and when both are new they are appended in
  submission order; the history of any other session id is untouched.
\<close>

theorem session_history_dedup:
  assumes "mem = session_memory_after subs"
  shows "session_memory_get (record_prompt sid p (record_prompt sid p mem)) sid =
           session_memory_get (record_prompt sid p mem) sid
       \<and> count_list (session_memory_get (record_prompt sid p (record_prompt sid p mem)) sid) p = 1
       \<and> (p \<noteq> q \<longrightarrow>
            count_list (session_memory_get (record_prompt sid q (record_prompt sid p mem)) sid) p = 1
          \<and> count_list (session_memory_get (record_prompt sid q (record_prompt sid p mem)) sid) q = 1
          \<and> (p \<notin> set (session_memory_get mem sid) \<and> q \<notin> set (session_memory_get mem sid) \<longrightarrow>
               session_memory_get (record_prompt sid q (record_prompt sid p mem)) sid =
                 session_memory_get mem sid @ [p, q]))
       \<and> (sid' \<noteq> sid \<longrightarrow>
            session_memory_get (record_prompt sid p mem) sid' = session_memory_get mem sid')"
proof -
  have d: "distinct (session_memory_get mem sid)"
    unfolding assms by (rule history_distinct)
  have d1: "distinct (session_memory_get (record_prompt sid p mem) sid)"
    using d by (simp add: history_record)
  have d2: "distinct (session_memory_get (record_prompt sid q (record_prompt sid p mem)) sid)"
    using d1 by (simp add: history_record)
  have a: "session_memory_get (record_prompt sid p (record_prompt sid p mem)) sid =
           session_memory_get (record_prompt sid p mem) sid"
    by (simp add: history_record)
  have b: "count_list (session_memory_get (record_prompt sid p (record_prompt sid p mem)) sid) p = 1"
    unfolding a using d1 by (intro count_list_distinct_mem) (simp_all add: history_record)
  have c1: "count_list (session_memory_get (record_prompt sid q (record_prompt sid p mem)) sid) p = 1"
    using d2 by (intro count_list_distinct_mem) (simp_all add: history_record)
  have c2: "count_list (session_memory_get (record_prompt sid q (record_prompt sid p mem)) sid) q = 1"
    using d2 by (intro count_list_distinct_mem) (simp_all add: history_record)
  have c3: "p \<noteq> q \<Longrightarrow> p \<notin> set (session_memory_get mem sid) \<Longrightarrow>
            q \<notin> set (session_memory_get mem sid) \<Longrightarrow>
            session_memory_get (record_prompt sid q (record_prompt sid p mem)) sid =
              session_memory_get mem sid @ [p, q]"
    by (simp add: history_record)
  have e: "sid' \<noteq> sid \<Longrightarrow>
           session_memory_get (record_prompt sid p mem) sid' = session_memory_get mem sid'"
    by (rule history_record_other)
  from a b c1 c2 c3 e show ?thesis by blast
qed

theorem session_history_dedup_witness:
  "session_memory_get
     (record_prompt ''s1'' ''open chrome'' (record_prompt ''s1'' ''open chrome''
        (session_memory_after [(''s1'', ''cpu''), (''s2'', ''open chrome'')]))) ''s1'' =
     [''cpu'', ''open chrome'']
   \<and> ''open chrome'' \<noteq> ''open notepad''
   \<and> ''open chrome'' \<notin> set (session_memory_get
        (session_memory_after [(''s1'', ''cpu''), (''s2'', ''open chrome'')]) ''s1'')
   \<and> ''open notepad'' \<notin> set (session_memory_get
        (session_memory_after [(''s1'', ''cpu''), (''s2'', ''open chrome'')]) ''s1'')
   \<and> session_memory_get
     (record_prompt ''s1'' ''open notepad'' (record_prompt ''s1'' ''open chrome''
        (session_memory_after [(''s1'', ''cpu''), (''s2'', ''open chrome'')]))) ''s1'' =
     [''cpu'', ''open chrome'', ''open notepad'']
   \<and> ''s2'' \<noteq> ''s1''
   \<and> session_memory_get
     (record_prompt ''s1'' ''open chrome''
        (session_memory_after [(''s1'', ''cpu''), (''s2'', ''open chrome'')])) ''s2'' =
     [''open chrome'']"
  using session_history_dedup
    [of "session_memory_after [(''s1'', ''cpu''), (''s2'', ''open chrome'')]"
        "[(''s1'', ''cpu''), (''s2'', ''open chrome'')]" "''s1''" "''open chrome''"
        "''open notepad''" "''s2''"]
  by (simp add: session_memory_after_def history_record history_record_other history_empty)

section \<open>Nearest-neighbour queries and the acceptance threshold\<close>

lemma nearest_one:
  assumes "c \<noteq> []"
  shows "\<exists>e\<in>set c. nearest metric c q 1 = [e] \<and>
           (\<forall>e'\<in>set c. metric q (e_embedding e) \<le> metric q (e_embedding e'))"
proof -
  let ?f = "\<lambda>e. metric q (e_embedding e)"
  let ?s = "sort_key ?f c"
  have "length ?s = length c" by simp
  with assms have "?s \<noteq> []" by (metis length_0_conv)
  then obtain e s' where s: "?s = e # s'" by (cases ?s) auto
  have "sorted (map ?f ?s)" by (rule sorted_sort_key)
  with s have le: "\<forall>x\<in>set s'. ?f e \<le> ?f x" by simp
  have mem: "set ?s = set c" by simp
  from s mem have "e \<in> set c" by (metis list.set_intros(1))
  moreover have "nearest metric c q 1 = [e]" by (simp add: nearest_def s)
  moreover have "\<forall>e'\<in>set c. ?f e \<le> ?f e'"
  proof
    fix e' assume "e' \<in> set c"
    with mem s have "e' = e \<or> e' \<in> set s'" by (metis set_ConsD)
    with le show "?f e \<le> ?f e'" by auto
  qed
  ultimately show ?thesis by blast
qed

lemma query_empty:
  "collection_query metric [] [q] n = \<lparr>ids = [[]], distances = [[]]\<rparr>"
  by (simp add: collection_query_def nearest_def)

lemma query_nonempty:
  assumes "c \<noteq> []"
  shows "\<exists>e\<in>set c. (\<forall>e'\<in>set c. metric q (e_embedding e) \<le> metric q (e_embedding e')) \<and>
           collection_query metric c [q] 1 =
             \<lparr>ids = [[e_id e]], distances = [[metric q (e_embedding e)]]\<rparr>"
proof -
  from nearest_one [OF assms, of metric q] obtain e where
    "e \<in> set c" "nearest metric c q 1 = [e]"
    "\<forall>e'\<in>set c. metric q (e_embedding e) \<le> metric q (e_embedding e')" by blast
  then show ?thesis by (intro bexI [of _ e]) (simp_all add: collection_query_def)
qed

lemma retrieve_of_query:
  assumes "collection_query metric collection [encode prompt] 1 =
             \<lparr>ids = [[n]], distances = [[d]]\<rparr>"
  shows "retrieve_best_function encode metric collection prompt session_id mem =
           (Inr (if d > SIMILARITY_THRESHOLD then None else Some n),
            record_prompt session_id prompt mem)"
  using assms by (simp add: retrieve_best_function_def Let_def)

lemma retrieve_of_empty:
  "retrieve_best_function encode metric [] prompt session_id mem =
     (Inr None, record_prompt session_id prompt mem)"
  by (simp add: retrieve_best_function_def Let_def query_empty)

lemma sample_query_far:
  "collection_query sample_metric sample_collection [sample_encode ''asdkjhasdkjh nonsense''] 1 =
     \<lparr>ids = [[''get_cpu_usage'']], distances = [[4 / 5]]\<rparr>"
  by (simp add: collection_query_def nearest_def sample_collection_def sample_metric_def
      sample_encode_def)

lemma sample_query_near:
  "collection_query sample_metric sample_collection [sample_encode ''open chrome''] 1 =
     \<lparr>ids = [[''open_chrome'']], distances = [[0]]\<rparr>"
  by (simp add: collection_query_def nearest_def sample_collection_def sample_metric_def
      sample_encode_def)

text \<open>
  Claim C2. For every prompt and session id: when the nearest-neighbour query returns
  an entry \<open>n\<close> at distance \<open>d\<close>, \<open>retrieve_best_function\<close> returns no action name if \<open>d\<close>
  exceeds the threshold (and the index is then not empty) and the name \<open>n\<close> otherwise;
  when the index is empty the query returns no entry and no action name is returned.
  On a non-empty index the query does return one entry, one at least distance.
\<close>

theorem resolve_threshold:
  "(\<forall>n d. collection_query metric collection [encode prompt] 1 =
             \<lparr>ids = [[n]], distances = [[d]]\<rparr> \<longrightarrow>
      (d > SIMILARITY_THRESHOLD \<longrightarrow>
         collection \<noteq> [] \<and>
         fst (retrieve_best_function encode metric collection prompt session_id mem) = Inr None) \<and>
      (\<not> d > SIMILARITY_THRESHOLD \<longrightarrow>
         fst (retrieve_best_function encode metric collection prompt session_id mem) =
           Inr (Some n)))
   \<and> (collection = [] \<longrightarrow>
         collection_query metric collection [encode prompt] 1 =
           \<lparr>ids = [[]], distances = [[]]\<rparr> \<and>
         fst (retrieve_best_function encode metric collection prompt session_id mem) = Inr None)
   \<and> (collection \<noteq> [] \<longrightarrow>
         (\<exists>e\<in>set collection.
            (\<forall>e'\<in>set collection.
               metric (encode prompt) (e_embedding e) \<le> metric (encode prompt) (e_embedding e')) \<and>
            collection_query metric collection [encode prompt] 1 =
              \<lparr>ids = [[e_id e]], distances = [[metric (encode prompt) (e_embedding e)]]\<rparr>))"
proof (intro conjI allI impI)
  fix n d
  assume q: "collection_query metric collection [encode prompt] 1 =
               \<lparr>ids = [[n]], distances = [[d]]\<rparr>"
  show "collection \<noteq> []"
  proof
    assume "collection = []"
    with q show False by (simp add: query_empty)
  qed
  { assume "d > SIMILARITY_THRESHOLD"
    then show "fst (retrieve_best_function encode metric collection prompt session_id mem) =
                 Inr None"
      by (simp add: retrieve_of_query [where encode = encode and prompt = prompt, OF q]) }
  { assume "\<not> d > SIMILARITY_THRESHOLD"
    then show "fst (retrieve_best_function encode metric collection prompt session_id mem) =
                 Inr (Some n)"
      by (simp add: retrieve_of_query [where encode = encode and prompt = prompt, OF q]) }
next
  assume "collection = []"
  then show "collection_query metric collection [encode prompt] 1 =
               \<lparr>ids = [[]], distances = [[]]\<rparr>"
    by (simp add: query_empty)
next
  assume "collection = []"
  then show "fst (retrieve_best_function encode metric collection prompt session_id mem) =
               Inr None"
    by (simp add: retrieve_of_empty)
next
  assume "collection \<noteq> []"
  then show "\<exists>e\<in>set collection.
            (\<forall>e'\<in>set collection.
               metric (encode prompt) (e_embedding e) \<le> metric (encode prompt) (e_embedding e')) \<and>
            collection_query metric collection [encode prompt] 1 =
              \<lparr>ids = [[e_id e]], distances = [[metric (encode prompt) (e_embedding e)]]\<rparr>"
    by (rule query_nonempty)
qed

theorem resolve_threshold_witness:
  "collection_query sample_metric sample_collection [sample_encode ''asdkjhasdkjh nonsense''] 1 =
     \<lparr>ids = [[''get_cpu_usage'']], distances = [[4 / 5]]\<rparr>
   \<and> 4 / 5 > SIMILARITY_THRESHOLD
   \<and> sample_collection \<noteq> []
   \<and> fst (retrieve_best_function sample_encode sample_metric sample_collection
        ''asdkjhasdkjh nonsense'' ''s1'' Map.empty) = Inr None
   \<and> collection_query sample_metric sample_collection [sample_encode ''open chrome''] 1 =
     \<lparr>ids = [[''open_chrome'']], distances = [[0]]\<rparr>
   \<and> \<not> 0 > SIMILARITY_THRESHOLD
   \<and> fst (retrieve_best_function sample_encode sample_metric sample_collection
        ''open chrome'' ''s1'' Map.empty) = Inr (Some ''open_chrome'')
   \<and> fst (retrieve_best_function sample_encode sample_metric []
        ''open chrome'' ''s1'' Map.empty) = Inr None"
proof -
  have far: "4 / 5 > SIMILARITY_THRESHOLD" and near: "\<not> 0 > SIMILARITY_THRESHOLD"
    by (simp_all add: SIMILARITY_THRESHOLD_def)
  have ne: "sample_collection \<noteq> []" by (simp add: sample_collection_def)
  from resolve_threshold
    [of sample_metric sample_collection sample_encode "''asdkjhasdkjh nonsense''" "''s1''" Map.empty]
    sample_query_far far
  have 1: "fst (retrieve_best_function sample_encode sample_metric sample_collection
        ''asdkjhasdkjh nonsense'' ''s1'' Map.empty) = Inr None" by blast
  from resolve_threshold
    [of sample_metric sample_collection sample_encode "''open chrome''" "''s1''" Map.empty]
    sample_query_near near
  have 2: "fst (retrieve_best_function sample_encode sample_metric sample_collection
        ''open chrome'' ''s1'' Map.empty) = Inr (Some ''open_chrome'')" by blast
  from resolve_threshold
    [of sample_metric "[]" sample_encode "''open chrome''" "''s1''" Map.empty]
  have 3: "fst (retrieve_best_function sample_encode sample_metric []
        ''open chrome'' ''s1'' Map.empty) = Inr None" by blast
  from sample_query_far far ne 1 sample_query_near near 2 3 show ?thesis by blast
qed

text \<open>
  Claim C9. When the distance of the nearest entry is exactly the acceptance
  threshold, \<open>retrieve_best_function\<close> accepts the match and returns the entry's name:
  the rejection test is a strict \<open>>\<close>.
\<close>

theorem threshold_inclusive:
  assumes "collection_query metric collection [encode prompt] 1 =
             \<lparr>ids = [[n]], distances = [[d]]\<rparr>"
    and "d = SIMILARITY_THRESHOLD"
  shows "fst (retrieve_best_function encode metric collection prompt session_id mem) =
           Inr (Some n)"
  using assms(2)
  by (simp add: retrieve_of_query [where encode = encode and prompt = prompt, OF assms(1)])

theorem threshold_inclusive_witness:
  "collection_query sample_metric
     [\<lparr>e_id = ''open_chrome'', e_embedding = 31 / 2, e_metadata = None\<rparr>]
     [sample_encode ''open chrome''] 1 =
     \<lparr>ids = [[''open_chrome'']], distances = [[SIMILARITY_THRESHOLD]]\<rparr>
   \<and> fst (retrieve_best_function sample_encode sample_metric
        [\<lparr>e_id = ''open_chrome'', e_embedding = 31 / 2, e_metadata = None\<rparr>]
        ''open chrome'' ''s1'' Map.empty) = Inr (Some ''open_chrome'')"
proof -
  have q: "collection_query sample_metric
     [\<lparr>e_id = ''open_chrome'', e_embedding = 31 / 2, e_metadata = None\<rparr>]
     [sample_encode ''open chrome''] 1 =
     \<lparr>ids = [[''open_chrome'']], distances = [[SIMILARITY_THRESHOLD]]\<rparr>"
    by (simp add: collection_query_def nearest_def sample_metric_def sample_encode_def
        SIMILARITY_THRESHOLD_def)
  from threshold_inclusive [where encode = sample_encode and prompt = "''open chrome''", OF q refl]
  have "fst (retrieve_best_function sample_encode sample_metric
        [\<lparr>e_id = ''open_chrome'', e_embedding = 31 / 2, e_metadata = None\<rparr>]
        ''open chrome'' ''s1'' Map.empty) = Inr (Some ''open_chrome'')" .
  with q show ?thesis by blast
qed

section \<open>The startup rebuild of the index\<close>

lemma foldl_update_distinct:
  "distinct (map fst d) \<Longrightarrow>
   distinct (map fst (foldl (\<lambda>d (k, v). AList.update k v d) d items))"
  by (induction items arbitrary: d) (auto simp add: distinct_update)

lemma dict_of_distinct: "distinct (map fst (dict_of items))"
  by (simp add: dict_of_def foldl_update_distinct)

lemma get_available_functions_distinct:
  "distinct (map fst (get_available_functions members))"
  by (simp add: get_available_functions_def dict_of_distinct)

lemma collection_delete_all: "collection_delete (map e_id c) c = []"
  by (simp add: collection_delete_def filter_empty_conv)

lemma foldl_add_entry:
  "distinct (map e_id (c @ es)) \<Longrightarrow> foldl add_entry c es = c @ es"
proof (induction es arbitrary: c)
  case Nil
  show ?case by simp
next
  case (Cons e es)
  from Cons.prems have "e_id e \<notin> set (map e_id c)" by auto
  then have step: "add_entry c e = c @ [e]" by (simp add: add_entry_def)
  from Cons.prems have "distinct (map e_id ((c @ [e]) @ es))" by simp
  from Cons.IH [OF this] step show ?case by simp
qed

lemma new_entries_None:
  "new_entries names (map encode names) None =
     map (\<lambda>n. \<lparr>e_id = n, e_embedding = encode n, e_metadata = None\<rparr>) names"
  by (induction names) (simp_all add: new_entries_def)

lemma cleared:
  "(case collection_get collection of
      Inr existing_records \<Rightarrow>
        if existing_records \<noteq> [] then collection_delete existing_records collection
        else collection
    | Inl e \<Rightarrow> collection) = []"
  by (simp add: collection_get_def collection_delete_all)

lemma clear_and_store_functions_entries:
  assumes "distinct (map fst ALLOWED_FUNCTIONS)"
  shows "clear_and_store_functions encode ALLOWED_FUNCTIONS collection =
           map (\<lambda>n. \<lparr>e_id = n, e_embedding = encode n, e_metadata = None\<rparr>)
             (map fst ALLOWED_FUNCTIONS)"
proof -
  let ?es = "map (\<lambda>n. \<lparr>e_id = n, e_embedding = encode n, e_metadata = None\<rparr>)
               (map fst ALLOWED_FUNCTIONS)"
  have ids: "map e_id ?es = map fst ALLOWED_FUNCTIONS" by (simp add: comp_def)
  from assms have "distinct (map e_id ?es)" by (simp only: ids)
  then have "distinct (map e_id ([] @ ?es))" by (simp only: append_Nil)
  then have "foldl add_entry [] ?es = [] @ ?es" by (rule foldl_add_entry)
  then show ?thesis
    by (simp add: clear_and_store_functions_def Let_def cleared collection_add_def
        new_entries_None del: map_map)
qed

lemma sample_get_available:
  "get_available_functions sample_module =
     [(''get_cpu_usage'', sample_get_cpu_usage), (''list_files'', sample_list_files),
      (''open_chrome'', sample_open_chrome)]"
  by (simp add: get_available_functions_def getmembers_isfunction_def dict_of_def
      sample_module_def List.map_filter_def)

lemma sample_rebuild:
  "clear_and_store_functions sample_text_encode (get_available_functions sample_module)
     sample_stale_collection =
     [\<lparr>e_id = ''get_cpu_usage'', e_embedding = ''get_cpu_usage'', e_metadata = None\<rparr>,
      \<lparr>e_id = ''list_files'', e_embedding = ''list_files'', e_metadata = None\<rparr>,
      \<lparr>e_id = ''open_chrome'', e_embedding = ''open_chrome'', e_metadata = None\<rparr>]"
  by (simp add: sample_get_available clear_and_store_functions_def collection_get_def
      collection_delete_def collection_add_def new_entries_def add_entry_def
      sample_stale_collection_def sample_text_encode_def)

text \<open>
  Claim C7. After the startup rebuild the index holds the names of the registered
  actions, each exactly once and nothing else, whatever was persisted before: the
  result is the one of a rebuild that starts from an empty index.
\<close>

theorem rebuild_exact:
  assumes "ALLOWED_FUNCTIONS = get_available_functions members"
  shows "map e_id (clear_and_store_functions encode ALLOWED_FUNCTIONS collection) =
           map fst ALLOWED_FUNCTIONS
       \<and> distinct (map e_id (clear_and_store_functions encode ALLOWED_FUNCTIONS collection))
       \<and> clear_and_store_functions encode ALLOWED_FUNCTIONS collection =
           clear_and_store_functions encode ALLOWED_FUNCTIONS []"
proof -
  have d: "distinct (map fst ALLOWED_FUNCTIONS)"
    unfolding assms by (rule get_available_functions_distinct)
  note eq = clear_and_store_functions_entries [OF d]
  have m: "map e_id (clear_and_store_functions encode ALLOWED_FUNCTIONS collection) =
           map fst ALLOWED_FUNCTIONS"
    by (simp add: eq comp_def)
  from d have "distinct (map e_id (clear_and_store_functions encode ALLOWED_FUNCTIONS collection))"
    by (simp only: m)
  with m show ?thesis by (simp add: eq)
qed

theorem rebuild_exact_witness:
  "map e_id (clear_and_store_functions sample_text_encode (get_available_functions sample_module)
     sample_stale_collection) = [''get_cpu_usage'', ''list_files'', ''open_chrome'']
   \<and> map fst (get_available_functions sample_module) =
       [''get_cpu_usage'', ''list_files'', ''open_chrome'']
   \<and> map e_id sample_stale_collection = [''open_paint'', ''open_chrome'']"
proof -
  have b: "map fst (get_available_functions sample_module) =
             [''get_cpu_usage'', ''list_files'', ''open_chrome'']"
    by (simp add: sample_get_available)
  have c: "map e_id sample_stale_collection = [''open_paint'', ''open_chrome'']"
    by (simp add: sample_stale_collection_def)
  from rebuild_exact [of "get_available_functions sample_module" sample_module
      sample_text_encode sample_stale_collection, OF refl]
  have "map e_id (clear_and_store_functions sample_text_encode
          (get_available_functions sample_module) sample_stale_collection) =
        map fst (get_available_functions sample_module)"
    by (rule conjunct1)
  with b c show ?thesis by simp
qed

section \<open>The text that is embedded\<close>

text \<open>
  Claim C8, as amended. For every registered action, the text embedded by the startup
  rebuild to produce the action's index entry is the action's name itself, whether or
  not the handler has a description.
\<close>

theorem embedded_text:
  assumes "ALLOWED_FUNCTIONS = get_available_functions automation_functions"
  shows "clear_and_store_functions encode ALLOWED_FUNCTIONS collection =
           map (\<lambda>(name, func). \<lparr>e_id = name, e_embedding = encode name, e_metadata = None\<rparr>)
             ALLOWED_FUNCTIONS"
proof -
  have d: "distinct (map fst ALLOWED_FUNCTIONS)"
    unfolding assms by (rule get_available_functions_distinct)
  show ?thesis
    by (simp add: clear_and_store_functions_entries [OF d] comp_def case_prod_beta)
qed

theorem embedded_text_witness:
  "clear_and_store_functions sample_text_encode (get_available_functions sample_module)
     sample_stale_collection =
     [\<lparr>e_id = ''get_cpu_usage'', e_embedding = ''get_cpu_usage'', e_metadata = None\<rparr>,
      \<lparr>e_id = ''list_files'', e_embedding = ''list_files'', e_metadata = None\<rparr>,
      \<lparr>e_id = ''open_chrome'', e_embedding = ''open_chrome'', e_metadata = None\<rparr>]"
  using embedded_text [of "get_available_functions sample_module" sample_module
      sample_text_encode sample_stale_collection, OF refl]
  by (simp add: sample_get_available sample_text_encode_def)

text \<open>
  Claim C8, as stated, fails. \<^verbatim>\<open>list_files\<close> is registered and has a description, yet
  the entry the rebuild stores for it is made from its name, not from the description.
\<close>

theorem embedded_text_counterexample:
  "map_of (get_available_functions sample_module) ''list_files'' = Some sample_list_files
   \<and> h_doc sample_list_files = Some ''Lists files in the specified directory.''
   \<and> clear_and_store_functions sample_text_encode (get_available_functions sample_module) [] =
     [\<lparr>e_id = ''get_cpu_usage'', e_embedding = ''get_cpu_usage'', e_metadata = None\<rparr>,
      \<lparr>e_id = ''list_files'', e_embedding = ''list_files'', e_metadata = None\<rparr>,
      \<lparr>e_id = ''open_chrome'', e_embedding = ''open_chrome'', e_metadata = None\<rparr>]
   \<and> sample_text_encode ''list_files'' \<noteq>
       sample_text_encode ''Lists files in the specified directory.''"
proof -
  have 0: "map_of (get_available_functions sample_module) ''list_files'' =
             Some sample_list_files"
    by (simp add: sample_get_available)
  have 1: "h_doc sample_list_files = Some ''Lists files in the specified directory.''"
    by (simp add: sample_list_files_def)
  have 3: "clear_and_store_functions sample_text_encode (get_available_functions sample_module) [] =
     [\<lparr>e_id = ''get_cpu_usage'', e_embedding = ''get_cpu_usage'', e_metadata = None\<rparr>,
      \<lparr>e_id = ''list_files'', e_embedding = ''list_files'', e_metadata = None\<rparr>,
      \<lparr>e_id = ''open_chrome'', e_embedding = ''open_chrome'', e_metadata = None\<rparr>]"
    by (simp add: sample_get_available clear_and_store_functions_def collection_get_def
        collection_add_def new_entries_def add_entry_def sample_text_encode_def)
  have 4: "sample_text_encode ''list_files'' \<noteq>
             sample_text_encode ''Lists files in the specified directory.''"
    by (simp add: sample_text_encode_def)
  from 0 1 3 4 show ?thesis by (intro conjI)
qed

section \<open>The batch\<close>

lemma execute_function_returns:
  "\<exists>v w'. execute_function ALLOWED_FUNCTIONS function_name params w = (Inr v, w')"
proof (cases "execute_function_try ALLOWED_FUNCTIONS function_name params w")
  case (Pair r w')
  show ?thesis
  proof (cases r)
    case (Inr v)
    with Pair show ?thesis by (simp add: execute_function_def)
  next
    case (Inl e)
    obtain c m where e: "e = Exc c m" by (cases e)
    with Pair Inl show ?thesis by (cases c) (simp_all add: execute_function_def)
  qed
qed

lemma retrieve_total:
  fixes collection :: "'v collection"
  shows "\<exists>name. \<forall>session_id mem.
     retrieve_best_function encode metric collection prompt session_id mem =
       (Inr name, record_prompt session_id prompt mem)"
proof (cases "collection = []")
  case True
  then show ?thesis by (simp add: retrieve_of_empty)
next
  case False
  from query_nonempty [OF False, of metric "encode prompt"] obtain e :: "'v entry" where
    q: "collection_query metric collection [encode prompt] 1 =
          \<lparr>ids = [[e_id e]], distances = [[metric (encode prompt) (e_embedding e)]]\<rparr>"
    by blast
  show ?thesis
    by (simp add: retrieve_of_query [where encode = encode and prompt = prompt, OF q])
qed

text \<open>
  The loop returns its accumulator extended by one entry per prompt, entry and prompt
  in the same position: \<open>list_all2\<close> relates two lists of equal length element by
  element. The resolved name of a prompt does not depend on the session memory, so it
  is read off a call with any memory \<open>mem0\<close>.
\<close>

lemma loop_entries:
  "\<exists>res' mem' w'.
     execute_multiple_loop encode metric collection ALLOWED_FUNCTIONS session_id prompts res mem w =
       (Inr (res @ res'), mem', w') \<and>
     mem' = foldl (\<lambda>m p. record_prompt session_id p m) mem prompts \<and>
     list_all2
       (\<lambda>prompt r. \<exists>name.
          fst (retrieve_best_function encode metric collection prompt session_id mem0) = Inr name \<and>
          (if truthy_name name
           then r_function r = name \<and> r_code r = Some (generate_code (the name))
           else r = \<lparr>r_function = None, r_output = PStr ''No matching function found'',
                      r_code = None\<rparr>))
       prompts res'"
  (is "\<exists>res' mem' w'. _ \<and> _ \<and> list_all2 ?Q prompts res'")
proof (induction prompts arbitrary: res mem w)
  case Nil
  show ?case by simp
next
  case (Cons prompt prompts)
  from retrieve_total [of encode metric collection prompt] obtain name where
    r: "\<And>session_id mem. retrieve_best_function encode metric collection prompt session_id mem =
          (Inr name, record_prompt session_id prompt mem)" by blast
  let ?mem1 = "record_prompt session_id prompt mem"
  show ?case
  proof (cases "truthy_name name")
    case True
    from execute_function_returns [of ALLOWED_FUNCTIONS "the name" None w] obtain out w1 where
      x: "execute_function ALLOWED_FUNCTIONS (the name) None w = (Inr out, w1)" by blast
    let ?entry = "\<lparr>r_function = name, r_output = out, r_code = Some (generate_code (the name))\<rparr>"
    from Cons.IH [of "res @ [?entry]" ?mem1 w1] obtain res' mem' w' where
      ih: "execute_multiple_loop encode metric collection ALLOWED_FUNCTIONS session_id prompts
             (res @ [?entry]) ?mem1 w1 = (Inr ((res @ [?entry]) @ res'), mem', w')"
          "mem' = foldl (\<lambda>m p. record_prompt session_id p m) ?mem1 prompts"
          "list_all2 ?Q prompts res'"
      by blast
    have run: "execute_multiple_loop encode metric collection ALLOWED_FUNCTIONS session_id
                 (prompt # prompts) res mem w = (Inr (res @ (?entry # res')), mem', w')"
      using True by (simp add: r x ih(1))
    have "?Q prompt ?entry"
      using True by (intro exI [of _ name]) (simp add: r)
    with ih(3) have "list_all2 ?Q (prompt # prompts) (?entry # res')"
      by (simp only: list_all2_Cons simp_thms)
    with run ih(2) show ?thesis
      by (intro exI [of _ "?entry # res'"] exI [of _ mem'] exI [of _ w']) simp
  next
    case False
    let ?entry = "\<lparr>r_function = None, r_output = PStr ''No matching function found'',
                    r_code = None\<rparr>"
    from Cons.IH [of "res @ [?entry]" ?mem1 w] obtain res' mem' w' where
      ih: "execute_multiple_loop encode metric collection ALLOWED_FUNCTIONS session_id prompts
             (res @ [?entry]) ?mem1 w = (Inr ((res @ [?entry]) @ res'), mem', w')"
          "mem' = foldl (\<lambda>m p. record_prompt session_id p m) ?mem1 prompts"
          "list_all2 ?Q prompts res'"
      by blast
    have run: "execute_multiple_loop encode metric collection ALLOWED_FUNCTIONS session_id
                 (prompt # prompts) res mem w = (Inr (res @ (?entry # res')), mem', w')"
      using False by (simp add: r ih(1))
    have "?Q prompt ?entry"
      using False by (intro exI [of _ name]) (simp add: r)
    with ih(3) have "list_all2 ?Q (prompt # prompts) (?entry # res')"
      by (simp only: list_all2_Cons simp_thms)
    with run ih(2) show ?thesis
      by (intro exI [of _ "?entry # res'"] exI [of _ mem'] exI [of _ w']) simp
  qed
qed

text \<open>
  Claim C6. For every sequence of prompts the batch returns a response (no prompt
  aborts it) whose results are exactly one entry per prompt, in the order of the
  prompts: the entry of a prompt that resolves to an action name carries that name, and
  the entry of a prompt that resolves to no match is the "no match" entry with a null
  action name. The session memory has then recorded every prompt of the batch.
\<close>

theorem batch_one_entry_per_prompt:
  "\<exists>res mem' w'.
     execute_multiple encode metric collection ALLOWED_FUNCTIONS prompts session_id mem w =
       (Inr \<lparr>session_history = session_memory_get mem' session_id, results = res\<rparr>, mem', w') \<and>
     mem' = foldl (\<lambda>m p. record_prompt session_id p m) mem prompts \<and>
     length res = length prompts \<and>
     list_all2
       (\<lambda>prompt r. \<exists>name.
          fst (retrieve_best_function encode metric collection prompt session_id mem) = Inr name \<and>
          (if truthy_name name
           then r_function r = name \<and> r_code r = Some (generate_code (the name))
           else r = \<lparr>r_function = None, r_output = PStr ''No matching function found'',
                      r_code = None\<rparr>))
       prompts res"
proof -
  from loop_entries [of encode metric collection ALLOWED_FUNCTIONS session_id prompts "[]" mem w mem]
  obtain res mem' w' where
    l: "execute_multiple_loop encode metric collection ALLOWED_FUNCTIONS session_id prompts [] mem w =
          (Inr ([] @ res), mem', w')"
       "mem' = foldl (\<lambda>m p. record_prompt session_id p m) mem prompts"
       "list_all2
         (\<lambda>prompt r. \<exists>name.
            fst (retrieve_best_function encode metric collection prompt session_id mem) = Inr name \<and>
            (if truthy_name name
             then r_function r = name \<and> r_code r = Some (generate_code (the name))
             else r = \<lparr>r_function = None, r_output = PStr ''No matching function found'',
                        r_code = None\<rparr>))
         prompts res"
    by blast
  from l(3) have len: "length res = length prompts"
    by (simp add: list_all2_lengthD)
  from l(1) have "execute_multiple encode metric collection ALLOWED_FUNCTIONS prompts session_id mem w =
       (Inr \<lparr>session_history = session_memory_get mem' session_id, results = res\<rparr>, mem', w')"
    by (simp add: execute_multiple_def)
  with l(2) len l(3) show ?thesis by blast
qed

lemma sample_batch:
  "fst (execute_multiple sample_encode sample_metric sample_collection sample_registry
          [''open chrome'', ''asdkjhasdkjh nonsense''] ''s1'' Map.empty []) =
     Inr \<lparr>session_history = [''open chrome'', ''asdkjhasdkjh nonsense''],
          results =
            [\<lparr>r_function = Some ''open_chrome'', r_output = PStr ''Executed Successfully'',
              r_code = Some (generate_code ''open_chrome'')\<rparr>,
             \<lparr>r_function = None, r_output = PStr ''No matching function found'',
              r_code = None\<rparr>]\<rparr>"
  by (simp add: execute_multiple_def
      retrieve_of_query [where encode = sample_encode and prompt = "''open chrome''",
        OF sample_query_near]
      retrieve_of_query [where encode = sample_encode and prompt = "''asdkjhasdkjh nonsense''",
        OF sample_query_far]
      SIMILARITY_THRESHOLD_def execute_function_def execute_function_try_def
      sample_registry_def call_with_params_def call_handler_def bind_keywords_def
      sample_open_chrome_def history_record history_empty)

theorem batch_one_entry_per_prompt_witness:
  "fst (execute_multiple sample_encode sample_metric sample_collection sample_registry
          [''open chrome'', ''asdkjhasdkjh nonsense''] ''s1'' Map.empty []) =
     Inr \<lparr>session_history = [''open chrome'', ''asdkjhasdkjh nonsense''],
          results =
            [\<lparr>r_function = Some ''open_chrome'', r_output = PStr ''Executed Successfully'',
              r_code = Some (generate_code ''open_chrome'')\<rparr>,
             \<lparr>r_function = None, r_output = PStr ''No matching function found'',
              r_code = None\<rparr>]\<rparr>
   \<and> fst (retrieve_best_function sample_encode sample_metric sample_collection
        ''asdkjhasdkjh nonsense'' ''s1'' Map.empty) = Inr None"
  using batch_one_entry_per_prompt [of sample_encode sample_metric sample_collection
      sample_registry "[''open chrome'', ''asdkjhasdkjh nonsense'']" "''s1''" Map.empty "[]"]
  by (simp add: sample_batch
      retrieve_of_query [where encode = sample_encode and prompt = "''asdkjhasdkjh nonsense''",
        OF sample_query_far]
      SIMILARITY_THRESHOLD_def)

end
